theory Spec2Isabelle
  imports Complex_Main "HOL-Library.Sublist"
begin

section \<open>The Kattis task type of CMS: outcome extraction and result reduction\<close>

text \<open>
  A shallow embedding of \<^verbatim>\<open>cms/grading/tasktypes/Kattis.py\<close> and of the attachment
  stage of \<^verbatim>\<open>cmscontrib/loaders/kattis.py\<close>. Every raise of the Python code is a value
  of the type \<open>error\<close>.
\<close>

datatype error =
    KeyError | TypeError | ValueError | NameError | IndexError | StopIteration
  | MessageLookupError | FileNotFoundError | FileExistsError | NotADirectoryError

subsection \<open>Python values\<close>

text \<open>
  A Python float is a finite real, an infinity or NaN. The code only compares floats with
  \<^verbatim>\<open>0.0\<close> and \<^verbatim>\<open>1.0\<close>; any comparison with NaN is false.
\<close>

datatype pyfloat = Finite real | PosInf | NegInf | NaN

fun float_less :: "pyfloat \<Rightarrow> pyfloat \<Rightarrow> bool" where
  "float_less NaN _ = False"
| "float_less _ NaN = False"
| "float_less (Finite a) (Finite b) = (a < b)"
| "float_less NegInf NegInf = False"
| "float_less NegInf _ = True"
| "float_less _ NegInf = False"
| "float_less PosInf _ = False"
| "float_less _ PosInf = True"

text \<open>The values a stats dictionary holds.\<close>

datatype pyval = IntV int | FloatV pyfloat | StrV string | NoneV

type_synonym stats = "string \<rightharpoonup> pyval"

text \<open>
  \<^verbatim>\<open>v == n\<close> for an integer \<open>n\<close>, and \<^verbatim>\<open>v in [n, ...]\<close>: an integer equals the float of
  the same value.
\<close>

fun py_eq_int :: "pyval \<Rightarrow> int \<Rightarrow> bool" where
  "py_eq_int (IntV a) n = (a = n)"
| "py_eq_int (FloatV (Finite x)) n = (x = of_int n)"
| "py_eq_int _ n = False"

definition py_in :: "pyval \<Rightarrow> int list \<Rightarrow> bool" where
  "py_in v ns = list_ex (py_eq_int v) ns"

text \<open>
  What \<^verbatim>\<open>evaluation_step_after_run\<close> returns for one sandbox: the sandbox-ok flag, the
  evaluation-ok flag and the stats (\<^verbatim>\<open>None\<close> when the sandbox failed). The function is
  imported from \<^verbatim>\<open>cms.grading.steps\<close>; its result for the user and for the manager
  sandbox is an input of the model.
\<close>

type_synonym step_result = "bool \<times> bool \<times> stats option"

subsection \<open>The host file system\<close>

datatype node = File string | Dir | Fifo

type_synonym filesystem = "string \<rightharpoonup> node"

text \<open>\<^verbatim>\<open>os.path.join\<close> of two components (POSIX).\<close>

definition path_join :: "string \<Rightarrow> string \<Rightarrow> string" where
  "path_join a b =
     (if (case b of [] \<Rightarrow> False | c # _ \<Rightarrow> c = CHR ''/'') then b
      else if a = [] \<or> last a = CHR ''/'' then a @ b
      else a @ ''/'' @ b)"

definition isfile :: "filesystem \<Rightarrow> string \<Rightarrow> bool" where
  "isfile fs p = (case fs p of Some (File _) \<Rightarrow> True | _ \<Rightarrow> False)"

text \<open>\<^verbatim>\<open>open(p).read()\<close>: the content of a regular file.\<close>

definition read_file :: "filesystem \<Rightarrow> string \<Rightarrow> error + string" where
  "read_file fs p = (case fs p of Some (File c) \<Rightarrow> Inr c | _ \<Rightarrow> Inl FileNotFoundError)"

subsection \<open>Jobs and external collaborators\<close>

text \<open>
  The fields of a job that the task type reads or writes. \<open>job_text\<close> and \<open>job_plus\<close> are
  the fields \<^verbatim>\<open>text\<close> and \<^verbatim>\<open>plus\<close>; \<open>success\<close> is \<^verbatim>\<open>None\<close> until it is assigned.
  \<open>executables\<close> and \<open>managers\<close> are dictionaries from file names to digests, in
  insertion order.
\<close>

record job =
  language :: string
  executables :: "(string \<times> string) list"
  managers :: "(string \<times> string) list"
  job_input :: string
  job_output :: string
  time_limit :: real
  memory_limit :: int
  multithreaded_sandbox :: bool
  only_execution :: bool
  keep_sandbox :: bool
  sandboxes :: "string list"
  success :: "bool option"
  outcome :: "string option"
  job_text :: "string list option"
  job_plus :: "stats option"

text \<open>
  Code that the task type imports and that is not part of these files:
  the message table \<^verbatim>\<open>EVALUATION_MESSAGES\<close> (key to message text),
  \<^verbatim>\<open>human_evaluation_message\<close>, Python's \<^verbatim>\<open>float(...)\<close> on a string
  (\<open>None\<close> is its \<^verbatim>\<open>ValueError\<close>), the rendering \<^verbatim>\<open>"%s" % x\<close> of a float,
  Python's addition \<^verbatim>\<open>x + y\<close> of two finite floats (the sum, rounded to a float),
  the two job checks, the language's evaluation commands (from the language name and the
  executable's file name) and the root path of a sandbox.
\<close>

record externals =
  EVALUATION_MESSAGES :: "string \<rightharpoonup> string"
  human_evaluation_message :: "stats option \<Rightarrow> string list"
  float_of_string :: "string \<Rightarrow> pyfloat option"
  format_float :: "pyfloat \<Rightarrow> string"
  float_add :: "real \<Rightarrow> real \<Rightarrow> real"
  check_executables_number :: "job \<Rightarrow> nat \<Rightarrow> bool"
  check_manager_present :: "job \<Rightarrow> string \<Rightarrow> bool"
  get_evaluation_commands :: "string \<Rightarrow> string \<Rightarrow> string list list"
  get_root_path :: "string \<Rightarrow> string"

text \<open>\<^verbatim>\<open>EVALUATION_MESSAGES.get(key).message\<close>; a key the table lacks raises.\<close>

definition message :: "externals \<Rightarrow> string \<Rightarrow> error + string" where
  "message ext key =
     (case EVALUATION_MESSAGES ext key of None \<Rightarrow> Inl MessageLookupError | Some m \<Rightarrow> Inr m)"

subsection \<open>\<^verbatim>\<open>Kattis._extract_outcome\<close>\<close>

text \<open>
  The result is the pair \<^verbatim>\<open>(outcome, [text])\<close>, or \<^verbatim>\<open>(None, None)\<close> for an exit code
  other than 42 and 43. The message for \<^verbatim>\<open>"wrong"\<close> is looked up before the exit code
  is told apart, as in the source.
\<close>

definition Kattis_extract_outcome ::
  "externals \<Rightarrow> filesystem \<Rightarrow> stats \<Rightarrow> string \<Rightarrow> error + (pyfloat option \<times> string list option)"
where
  "Kattis_extract_outcome ext fs stats feedbackdir =
     (case stats ''exit_code'' of
        None \<Rightarrow> Inl KeyError
      | Some exit_code \<Rightarrow>
          let score_multiplier_file = path_join feedbackdir ''score_multiplier.txt'' in
          if \<not> py_in exit_code [42, 43] then Inr (None, None)
          else
            (case message ext ''wrong'' of
               Inl e \<Rightarrow> Inl e
             | Inr wrong \<Rightarrow>
                 if py_eq_int exit_code 43 then Inr (Some (Finite 0), Some [wrong])
                 else if isfile fs score_multiplier_file then
                   (case read_file fs score_multiplier_file of
                      Inl e \<Rightarrow> Inl e
                    | Inr content \<Rightarrow>
                        (case float_of_string ext content of
                           None \<Rightarrow> Inl ValueError
                         | Some v \<Rightarrow>
                             if float_less (Finite 0) v \<and> float_less v (Finite 1)
                             then (case message ext ''partial'' of
                                     Inl e \<Rightarrow> Inl e
                                   | Inr partial \<Rightarrow> Inr (Some v, Some [partial]))
                             else (case message ext ''success'' of
                                     Inl e \<Rightarrow> Inl e
                                   | Inr ok \<Rightarrow> Inr (Some v, Some [ok]))))
                 else
                   (case message ext ''success'' of
                      Inl e \<Rightarrow> Inl e
                    | Inr ok \<Rightarrow> Inr (Some (Finite 1), Some [ok]))))"

subsection \<open>\<^verbatim>\<open>Kattis._get_results\<close>\<close>

text \<open>
  \<^verbatim>\<open>stats_mgr["exit_code"] in [42, 43]\<close>, evaluated only when the manager's sandbox is
  ok (\<^verbatim>\<open>and\<close> short-circuits).
\<close>

definition manager_verdict_given :: "bool \<Rightarrow> stats option \<Rightarrow> error + bool" where
  "manager_verdict_given box_success_mgr stats_mgr =
     (if box_success_mgr then
        (case stats_mgr of
           None \<Rightarrow> Inl TypeError
         | Some st \<Rightarrow>
             (case st ''exit_code'' of
                None \<Rightarrow> Inl KeyError
              | Some c \<Rightarrow> Inr (py_in c [42, 43])))
      else Inr False)"

text \<open>
  The four branches that choose outcome, text and user stats. An exception leaves the
  function before any field of the job is written.
\<close>

definition reduce_results ::
  "externals \<Rightarrow> filesystem \<Rightarrow> string \<Rightarrow> bool \<Rightarrow> bool \<Rightarrow> bool \<Rightarrow> stats option \<Rightarrow> stats option
     \<Rightarrow> error + (pyfloat option \<times> string list option \<times> stats option)"
where
  "reduce_results ext fs feedback_dir succ only_exec evaluation_success_user stats_user stats_mgr =
     (if \<not> succ then Inr (None, None, None)
      else if only_exec then
        Inr (Some (Finite 0), Some [''Execution completed successfully''], stats_user)
      else if \<not> evaluation_success_user then
        Inr (Some (Finite 0), Some (human_evaluation_message ext stats_user), stats_user)
      else
        (case stats_mgr of
           None \<Rightarrow> Inl TypeError
         | Some st \<Rightarrow>
             (case Kattis_extract_outcome ext fs st feedback_dir of
                Inl e \<Rightarrow> Inl e
              | Inr (oc, tx) \<Rightarrow> Inr (oc, tx, stats_user))))"

definition Kattis_get_results ::
  "externals \<Rightarrow> filesystem \<Rightarrow> string \<Rightarrow> step_result \<Rightarrow> step_result \<Rightarrow> job \<Rightarrow> error + job"
where
  "Kattis_get_results ext fs feedback_dir user_result mgr_result j =
     (let (box_success_mgr, evaluation_success_mgr0, stats_mgr) = mgr_result in
      (case manager_verdict_given box_success_mgr stats_mgr of
         Inl e \<Rightarrow> Inl e
       | Inr given \<Rightarrow>
           (let evaluation_success_mgr = (if given then True else evaluation_success_mgr0);
                (box_success_user, evaluation_success_user, stats_user) = user_result;
                succ = (box_success_user \<and> box_success_mgr \<and> evaluation_success_mgr)
            in (case reduce_results ext fs feedback_dir succ (only_execution j)
                       evaluation_success_user stats_user stats_mgr of
                  Inl e \<Rightarrow> Inl e
                | Inr (oc, tx, st) \<Rightarrow>
                    Inr (j\<lparr>success := Some succ,
                           outcome := map_option (format_float ext) oc,
                           job_text := tx,
                           job_plus := st\<rparr>)))))"

subsection \<open>Configuration, processes and the world of an evaluation\<close>

record config =
  temp_dir :: string
  trusted_sandbox_max_time_s :: real
  trusted_sandbox_max_memory_kib :: int
  config_keep_sandbox :: bool

text \<open>
  The arguments of one call of \<^verbatim>\<open>evaluation_step_before_run\<close>. A sandbox is known by the
  name it was created with. \<open>l_dirs_map\<close> lists the mounts: host directory, directory in
  the sandbox, mode.
\<close>

record launch =
  l_sandbox :: string
  l_command :: "string list"
  l_time_limit :: real
  l_memory_limit :: int
  l_dirs_map :: "(string \<times> string \<times> string) list"
  l_stdin_redirect :: "string option"
  l_stdout_redirect :: "string option"
  l_multiprocess :: bool

text \<open>
  The calls into the sandbox layer, in the order they are made: \<^verbatim>\<open>create_sandbox\<close>,
  \<^verbatim>\<open>create_file_from_storage\<close> (sandbox, file name, digest, executable),
  \<^verbatim>\<open>trusted_step\<close>, \<^verbatim>\<open>evaluation_step_before_run\<close>, \<^verbatim>\<open>wait_without_std\<close> and
  \<^verbatim>\<open>delete_sandbox\<close> (sandbox, success, keep). They are recorded, not interpreted: the
  sandbox layer is not part of these files, and its calls are taken to return.
\<close>

datatype event =
    CreateSandbox string
  | CreateFile string string string bool
  | TrustedStep string "string list list"
  | Start launch
  | Wait "string list"
  | DeleteSandbox string "bool option" bool

text \<open>
  The world an evaluation runs in: the host file system, the names \<^verbatim>\<open>tempfile.mkdtemp\<close>
  will try (the operating system chooses them) and the calls made so far. File permissions
  are not modelled, so \<^verbatim>\<open>os.chmod\<close> has no counterpart.
\<close>

record world =
  files :: filesystem
  fresh_names :: "string list"
  events :: "event list"

text \<open>
  What the sandboxed processes do once they run: the results that
  \<^verbatim>\<open>evaluation_step_after_run\<close> reports for the user and the manager sandbox, the files
  (name, content) the manager leaves in its feedback directory, and what the user process
  writes to its standard output.
\<close>

record run =
  user_result :: step_result
  mgr_result :: step_result
  feedback_files :: "(string \<times> string) list"
  user_output :: string

text \<open>The processes started, in order: the \<open>Start\<close> calls among the calls made.\<close>

fun launches :: "event list \<Rightarrow> launch list" where
  "launches [] = []"
| "launches (Start l # es) = l # launches es"
| "launches (_ # es) = launches es"

definition emit :: "world \<Rightarrow> event list \<Rightarrow> world" where
  "emit w es = w\<lparr>events := events w @ es\<rparr>"

text \<open>
  \<^verbatim>\<open>tempfile.mkdtemp(dir=d)\<close>: the first candidate name that is not in use becomes a new
  directory under \<open>d\<close>.
\<close>

fun mkdtemp_from :: "filesystem \<Rightarrow> string \<Rightarrow> string list \<Rightarrow> (string \<times> string list) option" where
  "mkdtemp_from fs d [] = None"
| "mkdtemp_from fs d (n # ns) =
     (let p = path_join d n in if fs p = None then Some (p, ns) else mkdtemp_from fs d ns)"

definition mkdtemp :: "world \<Rightarrow> string \<Rightarrow> error + (string \<times> world)" where
  "mkdtemp w d =
     (case files w d of
        None \<Rightarrow> Inl FileNotFoundError
      | Some Dir \<Rightarrow>
          (case mkdtemp_from (files w) d (fresh_names w) of
             None \<Rightarrow> Inl FileExistsError
           | Some (p, ns) \<Rightarrow> Inr (p, w\<lparr>files := (files w)(p \<mapsto> Dir), fresh_names := ns\<rparr>))
      | Some _ \<Rightarrow> Inl NotADirectoryError)"

definition mkfifo :: "world \<Rightarrow> string \<Rightarrow> error + world" where
  "mkfifo w p =
     (if files w p = None then Inr (w\<lparr>files := (files w)(p \<mapsto> Fifo)\<rparr>)
      else Inl FileExistsError)"

text \<open>
  Modelled from the spec: \<^verbatim>\<open>cms.rmtree\<close> is imported and not part of these files. The
  ephemeral directories are "removed": the directory goes, with everything beneath it; a
  path that does not exist raises.
\<close>

definition rmtree :: "filesystem \<Rightarrow> string \<Rightarrow> error + filesystem" where
  "rmtree fs d =
     (if fs d = None then Inl FileNotFoundError
      else Inr (\<lambda>p. if p = d \<or> prefix (d @ ''/'') p then None else fs p))"

fun rmtrees :: "filesystem \<Rightarrow> string list \<Rightarrow> error option \<times> filesystem" where
  "rmtrees fs [] = (None, fs)"
| "rmtrees fs (d # ds) =
     (case rmtree fs d of Inl e \<Rightarrow> (Some e, fs) | Inr fs' \<Rightarrow> rmtrees fs' ds)"

definition write_files :: "filesystem \<Rightarrow> string \<Rightarrow> (string \<times> string) list \<Rightarrow> filesystem" where
  "write_files fs d fl = fold (\<lambda>(n, c) f. f(path_join d n \<mapsto> File c)) fl fs"

text \<open>
  \<^verbatim>\<open>wait_without_std\<close>: the processes run to their end. What they leave on the host is
  what they wrote into the directories mounted for them.
\<close>

definition wait_without_std :: "string list \<Rightarrow> (filesystem \<Rightarrow> filesystem) \<Rightarrow> world \<Rightarrow> world" where
  "wait_without_std ps effect w = emit (w\<lparr>files := effect (files w)\<rparr>) [Wait ps]"

definition manager_writes :: "run \<Rightarrow> string \<Rightarrow> filesystem \<Rightarrow> filesystem" where
  "manager_writes r feedback_dir fs = write_files fs feedback_dir (feedback_files r)"

definition user_writes :: "run \<Rightarrow> string \<Rightarrow> filesystem \<Rightarrow> filesystem" where
  "user_writes r output_dir fs = fs(path_join output_dir ''output.txt'' \<mapsto> File (user_output r))"

subsection \<open>The parts the two orchestrators share\<close>

definition MANAGER_FILENAME :: string where
  "MANAGER_FILENAME = ''manager''"

definition INPUT_FILENAME :: string where
  "INPUT_FILENAME = ''input.txt''"

definition ANSWER_FILENAME :: string where
  "ANSWER_FILENAME = ''answer.txt''"

text \<open>
  Lines 302--310 and 431--439: the two checks, the first executable and the manager's digest.
  \<open>None\<close> is the early \<^verbatim>\<open>return\<close> after a failed check.
\<close>

definition lookup_programs :: "externals \<Rightarrow> job \<Rightarrow> error + (string \<times> string \<times> string) option" where
  "lookup_programs ext j =
     (if \<not> check_executables_number ext j 1 then Inr None
      else
        (case executables j of
           [] \<Rightarrow> Inl StopIteration
         | (executable_filename, executable_digest) # _ \<Rightarrow>
             if \<not> check_manager_present ext j MANAGER_FILENAME then Inr None
             else
               (case map_of (managers j) MANAGER_FILENAME of
                  None \<Rightarrow> Inl KeyError
                | Some manager_digest \<Rightarrow>
                    Inr (Some (executable_filename, executable_digest, manager_digest)))))"

text \<open>Lines 334--341 and 492--499: the manager's sandbox with the manager, input and answer.\<close>

definition create_manager_sandbox :: "externals \<Rightarrow> string \<Rightarrow> world \<Rightarrow> job \<Rightarrow> world \<times> job" where
  "create_manager_sandbox ext manager_digest w j =
     (emit w [CreateSandbox ''manager_evaluate'',
              CreateFile ''manager_evaluate'' MANAGER_FILENAME manager_digest True,
              CreateFile ''manager_evaluate'' INPUT_FILENAME (job_input j) False,
              CreateFile ''manager_evaluate'' ANSWER_FILENAME (job_output j) False],
      j\<lparr>sandboxes := sandboxes j @ [get_root_path ext ''manager_evaluate'']\<rparr>)"

text \<open>
  Lines 344--348 and 447--451: the user's sandbox with the executable.
  \<^verbatim>\<open>job.sandboxes.extend(path)\<close> appends the characters of the path one by one.
\<close>

definition create_user_sandbox ::
  "externals \<Rightarrow> string \<Rightarrow> string \<Rightarrow> world \<Rightarrow> job \<Rightarrow> world \<times> job"
where
  "create_user_sandbox ext executable_filename executable_digest w j =
     (emit w [CreateSandbox ''user_evaluate'',
              CreateFile ''user_evaluate'' executable_filename executable_digest True],
      j\<lparr>sandboxes := sandboxes j @ map (\<lambda>c. [c]) (get_root_path ext ''user_evaluate'')\<rparr>)"

text \<open>
  Lines 353--387 and 504--523: the manager's command and its start. The limits of a job and
  of the configuration are the reals that their floats denote; \<^verbatim>\<open>job.time_limit + 1.0\<close>
  is Python's float addition, and \<^verbatim>\<open>max\<close> returns one of its two arguments.
\<close>

definition start_manager ::
  "externals \<Rightarrow> config \<Rightarrow> job \<Rightarrow> string \<Rightarrow> (string \<times> string \<times> string) list \<Rightarrow> string option \<Rightarrow> string option
     \<Rightarrow> world \<Rightarrow> world"
where
  "start_manager ext cfg j sandbox_feedback_dir dirs stdin_redirect stdout_redirect w =
     (let manager_command =
            [''./'' @ MANAGER_FILENAME, INPUT_FILENAME, ANSWER_FILENAME, sandbox_feedback_dir];
          manager_time_limit =
            max (float_add ext (time_limit j) 1) (trusted_sandbox_max_time_s cfg)
      in emit w [Start \<lparr>l_sandbox = ''manager_evaluate'',
                        l_command = manager_command,
                        l_time_limit = manager_time_limit,
                        l_memory_limit = trusted_sandbox_max_memory_kib cfg * 1024,
                        l_dirs_map = dirs,
                        l_stdin_redirect = stdin_redirect,
                        l_stdout_redirect = stdout_redirect,
                        l_multiprocess = multithreaded_sandbox j\<rparr>])"

text \<open>
  Lines 390--415 and 457--482: the language's commands and the start of the user process.
  With more than one command the argument \<^verbatim>\<open>sandbox_user[i]\<close> of \<^verbatim>\<open>trusted_step\<close> is
  evaluated first; no variable \<^verbatim>\<open>i\<close> is bound anywhere, so \<^verbatim>\<open>NameError\<close> is raised
  before \<^verbatim>\<open>trusted_step\<close> is called. \<^verbatim>\<open>commands[-1]\<close> of an empty list raises
  \<^verbatim>\<open>IndexError\<close>.
\<close>

definition start_user ::
  "externals \<Rightarrow> job \<Rightarrow> string \<Rightarrow> (string \<times> string \<times> string) list \<Rightarrow> string option \<Rightarrow> string option
     \<Rightarrow> world \<Rightarrow> (error + unit) \<times> world"
where
  "start_user ext j executable_filename dirs stdin_redirect stdout_redirect w =
     (let commands = get_evaluation_commands ext (language j) executable_filename in
      if length commands > 1 then (Inl NameError, w)
      else if commands = [] then (Inl IndexError, w)
      else (Inr (),
            emit w [Start \<lparr>l_sandbox = ''user_evaluate'',
                           l_command = last commands,
                           l_time_limit = time_limit j,
                           l_memory_limit = memory_limit j,
                           l_dirs_map = dirs,
                           l_stdin_redirect = stdin_redirect,
                           l_stdout_redirect = stdout_redirect,
                           l_multiprocess = multithreaded_sandbox j\<rparr>]))"

text \<open>
  Lines 420--426 and 527--532: the results, the release of the sandboxes and the removal of
  the directories in \<open>doomed\<close>. An exception of \<^verbatim>\<open>_get_results\<close> leaves the job as it
  was and skips the rest.
\<close>

definition finish ::
  "externals \<Rightarrow> config \<Rightarrow> run \<Rightarrow> string \<Rightarrow> string list \<Rightarrow> world \<Rightarrow> job \<Rightarrow> (error + unit) \<times> world \<times> job"
where
  "finish ext cfg r feedback_dir doomed w j =
     (case Kattis_get_results ext (files w) feedback_dir (user_result r) (mgr_result r) j of
        Inl e \<Rightarrow> (Inl e, w, j)
      | Inr j' \<Rightarrow>
          (let w1 = emit w [DeleteSandbox ''manager_evaluate'' (success j') (keep_sandbox j'),
                            DeleteSandbox ''user_evaluate'' (success j') (keep_sandbox j')]
           in if success j' = Some True \<and> \<not> config_keep_sandbox cfg \<and> \<not> keep_sandbox j' then
                (case rmtrees (files w1) doomed of
                   (Some e, fs') \<Rightarrow> (Inl e, w1\<lparr>files := fs'\<rparr>, j')
                 | (None, fs') \<Rightarrow> (Inr (), w1\<lparr>files := fs'\<rparr>, j'))
              else (Inr (), w1, j')))"

subsection \<open>\<^verbatim>\<open>Kattis._evaluate_interactive\<close>\<close>

definition Kattis_evaluate_interactive ::
  "externals \<Rightarrow> config \<Rightarrow> run \<Rightarrow> world \<Rightarrow> job \<Rightarrow> (error + unit) \<times> world \<times> job"
where
  "Kattis_evaluate_interactive ext cfg r w j =
     (case lookup_programs ext j of
        Inl e \<Rightarrow> (Inl e, w, j)
      | Inr None \<Rightarrow> (Inr (), w, j)
      | Inr (Some (executable_filename, executable_digest, manager_digest)) \<Rightarrow>
     (case mkdtemp w (temp_dir cfg) of
        Inl e \<Rightarrow> (Inl e, w, j)
      | Inr (fifo_dir, w1) \<Rightarrow>
     (let fifo_user_to_manager = path_join fifo_dir ''u_to_m'';
          fifo_manager_to_user = path_join fifo_dir ''m_to_u''
      in
     (case mkfifo w1 fifo_user_to_manager of
        Inl e \<Rightarrow> (Inl e, w1, j)
      | Inr w2 \<Rightarrow>
     (case mkfifo w2 fifo_manager_to_user of
        Inl e \<Rightarrow> (Inl e, w2, j)
      | Inr w3 \<Rightarrow>
     (let sandbox_fifo_dir = ''/fifo'';
          sandbox_fifo_user_to_manager = path_join sandbox_fifo_dir ''u_to_m'';
          sandbox_fifo_manager_to_user = path_join sandbox_fifo_dir ''m_to_u''
      in
     (case mkdtemp w3 (temp_dir cfg) of
        Inl e \<Rightarrow> (Inl e, w3, j)
      | Inr (feedback_dir, w4) \<Rightarrow>
     (let sandbox_feedback_dir = ''/feedback'';
          (w5, j1) = create_manager_sandbox ext manager_digest w4 j;
          (w6, j2) = create_user_sandbox ext executable_filename executable_digest w5 j1;
          w7 = start_manager ext cfg j2 sandbox_feedback_dir
                 [(fifo_dir, sandbox_fifo_dir, ''rw''), (feedback_dir, sandbox_feedback_dir, ''rw'')]
                 (Some sandbox_fifo_user_to_manager) (Some sandbox_fifo_manager_to_user) w6
      in
     (case start_user ext j2 executable_filename [(fifo_dir, sandbox_fifo_dir, ''rw'')]
             (Some sandbox_fifo_manager_to_user) (Some sandbox_fifo_user_to_manager) w7 of
        (Inl e, w8) \<Rightarrow> (Inl e, w8, j2)
      | (Inr _, w8) \<Rightarrow>
          finish ext cfg r feedback_dir [fifo_dir, feedback_dir]
            (wait_without_std [''user_evaluate'', ''manager_evaluate'']
               (manager_writes r feedback_dir) w8)
            j2)))))))))"

subsection \<open>\<^verbatim>\<open>Kattis._evaluate_noninteractive\<close>\<close>

definition Kattis_evaluate_noninteractive ::
  "externals \<Rightarrow> config \<Rightarrow> run \<Rightarrow> world \<Rightarrow> job \<Rightarrow> (error + unit) \<times> world \<times> job"
where
  "Kattis_evaluate_noninteractive ext cfg r w j =
     (case lookup_programs ext j of
        Inl e \<Rightarrow> (Inl e, w, j)
      | Inr None \<Rightarrow> (Inr (), w, j)
      | Inr (Some (executable_filename, executable_digest, manager_digest)) \<Rightarrow>
     (case mkdtemp w (temp_dir cfg) of
        Inl e \<Rightarrow> (Inl e, w, j)
      | Inr (output_dir, w1) \<Rightarrow>
     (let sandbox_output_dir = ''/output'';
          sandbox_output_filename = path_join sandbox_output_dir ''output.txt'';
          (w2, j1) = create_user_sandbox ext executable_filename executable_digest w1 j;
          w3 = emit w2 [CreateFile ''user_evaluate'' INPUT_FILENAME (job_input j1) False]
      in
     (case start_user ext j1 executable_filename [(output_dir, sandbox_output_dir, ''rw'')]
             (Some INPUT_FILENAME) (Some sandbox_output_filename) w3 of
        (Inl e, w4) \<Rightarrow> (Inl e, w4, j1)
      | (Inr _, w4) \<Rightarrow>
     (let w5 = wait_without_std [''user_evaluate''] (user_writes r output_dir) w4 in
     (case mkdtemp w5 (temp_dir cfg) of
        Inl e \<Rightarrow> (Inl e, w5, j1)
      | Inr (feedback_dir, w6) \<Rightarrow>
     (let sandbox_feedback_dir = ''/feedback'';
          (w7, j2) = create_manager_sandbox ext manager_digest w6 j1;
          w8 = start_manager ext cfg j2 sandbox_feedback_dir
                 [(output_dir, sandbox_output_dir, ''rw''), (feedback_dir, sandbox_feedback_dir, ''rw'')]
                 (Some sandbox_output_filename) None w7
      in finish ext cfg r feedback_dir [feedback_dir]
           (wait_without_std [''manager_evaluate''] (manager_writes r feedback_dir) w8)
           j2)))))))"

subsection \<open>\<^verbatim>\<open>Kattis.evaluate\<close>\<close>

definition Kattis_evaluate ::
  "bool \<Rightarrow> externals \<Rightarrow> config \<Rightarrow> run \<Rightarrow> world \<Rightarrow> job \<Rightarrow> (error + unit) \<times> world \<times> job"
where
  "Kattis_evaluate interactive ext cfg r w j =
     (if interactive then Kattis_evaluate_interactive ext cfg r w j
      else Kattis_evaluate_noninteractive ext cfg r w j)"

section \<open>The task loader: \<^verbatim>\<open>KattisLoader.get_task\<close> up to the task record\<close>

text \<open>
  The loader walks a package directory, so its file system is a list of paths with their
  nodes, which can be enumerated; \<open>map_of\<close> reads it as a \<open>filesystem\<close>.
\<close>

type_synonym disk = "(string \<times> node) list"

definition path_exists :: "disk \<Rightarrow> string \<Rightarrow> bool" where
  "path_exists dk p = (map_of dk p \<noteq> None)"

text \<open>\<^verbatim>\<open>os.listdir(d)\<close>: the names of the entries directly in \<open>d\<close>.\<close>

definition entry_name :: "string \<Rightarrow> string \<Rightarrow> string option" where
  "entry_name d p =
     (let n = drop (length d + 1) p
      in if prefix (d @ ''/'') p \<and> n \<noteq> [] \<and> CHR ''/'' \<notin> set n then Some n else None)"

definition listdir :: "disk \<Rightarrow> string \<Rightarrow> error + string list" where
  "listdir dk d =
     (case map_of dk d of
        None \<Rightarrow> Inl FileNotFoundError
      | Some Dir \<Rightarrow> Inr (remdups (List.map_filter (\<lambda>(p, n). entry_name d p) dk))
      | Some _ \<Rightarrow> Inl NotADirectoryError)"

text \<open>\<^verbatim>\<open>os.path.split(p)[1]\<close>: what follows the last slash.\<close>

definition path_tail :: "string \<Rightarrow> string" where
  "path_tail p = rev (takeWhile (\<lambda>c. c \<noteq> CHR ''/'') (rev p))"

text \<open>
  Code that the loader calls and that is not part of these files: the file cacher's
  \<^verbatim>\<open>put_file_from_path\<close> (it returns the digest of the file at a path),
  \<^verbatim>\<open>yaml.safe_load\<close> (\<open>None\<close> for a document that is not a mapping), the paths that
  \<^verbatim>\<open>Path(path).glob("problem_statement/problem.*.pdf")\<close> yields and the language code
  \<^verbatim>\<open>suffixes[0][1:]\<close> of such a path.
\<close>

record loader_externals =
  put_file_from_path :: "filesystem \<Rightarrow> string \<Rightarrow> error + string"
  yaml_safe_load :: "string \<Rightarrow> error + (string \<rightharpoonup> pyval) option"
  glob_statements :: "disk \<Rightarrow> string \<Rightarrow> string list"
  statement_lang :: "string \<Rightarrow> string"

text \<open>
  The arguments collected for \<^verbatim>\<open>Task(**args)\<close> at line 204. \<open>statements\<close> maps a
  language to a digest and \<open>attachments\<close> a file name to a digest. The three arguments that
  are constants imported from elsewhere (feedback level, score mode, token mode) are left
  out.
\<close>

record task_args =
  task_name :: string
  title :: pyval
  statements :: "(string \<times> string) list option"
  submission_format :: "string list"
  attachments :: "(string \<times> string) list"

text \<open>
  \<^verbatim>\<open>load_yaml_from_path\<close> as \<^verbatim>\<open>get_task\<close> calls it: the handler of \<^verbatim>\<open>OSError\<close> raises
  the unbound name \<^verbatim>\<open>err\<close>, so a file that cannot be opened ends in \<^verbatim>\<open>NameError\<close>.
\<close>

definition is_OSError :: "error \<Rightarrow> bool" where
  "is_OSError e = (e \<in> set [FileNotFoundError, FileExistsError, NotADirectoryError])"

definition load_conf :: "loader_externals \<Rightarrow> disk \<Rightarrow> string \<Rightarrow> error + (string \<rightharpoonup> pyval) option" where
  "load_conf lx dk p =
     (case read_file (map_of dk) p of
        Inl _ \<Rightarrow> Inl NameError
      | Inr content \<Rightarrow>
          (case yaml_safe_load lx content of
             Inl e \<Rightarrow> if is_OSError e then Inl NameError else Inl e
           | Inr conf \<Rightarrow> Inr conf))"

text \<open>Lines 179--185: each statement found is stored; a later one replaces an earlier one
  of the same language.\<close>

fun put_statements :: "loader_externals \<Rightarrow> disk \<Rightarrow> string list \<Rightarrow> error + (string \<times> string) list" where
  "put_statements lx dk [] = Inr []"
| "put_statements lx dk (statement_path # rest) =
     (case put_file_from_path lx (map_of dk) statement_path of
        Inl e \<Rightarrow> Inl e
      | Inr digest \<Rightarrow>
          (case put_statements lx dk rest of
             Inl e \<Rightarrow> Inl e
           | Inr sts \<Rightarrow>
               (let lang = statement_lang lx statement_path
                in if lang \<in> fst ` set sts then Inr sts else Inr ((lang, digest) # sts))))"

text \<open>
  Lines 198--202: the names come from \<^verbatim>\<open>attachments\<close>, each file is read from
  \<^verbatim>\<open>os.path.join(self.path, "att", filename)\<close>.
\<close>

fun put_attachments ::
  "loader_externals \<Rightarrow> disk \<Rightarrow> string \<Rightarrow> string list \<Rightarrow> error + (string \<times> string) list"
where
  "put_attachments lx dk path [] = Inr []"
| "put_attachments lx dk path (filename # rest) =
     (case put_file_from_path lx (map_of dk) (path_join (path_join path ''att'') filename) of
        Inl e \<Rightarrow> Inl e
      | Inr digest \<Rightarrow>
          (case put_attachments lx dk path rest of
             Inl e \<Rightarrow> Inl e
           | Inr atts \<Rightarrow> Inr ((filename, digest) # atts)))"

text \<open>Lines 196--202.\<close>

definition load_attachments :: "loader_externals \<Rightarrow> disk \<Rightarrow> string \<Rightarrow> error + (string \<times> string) list" where
  "load_attachments lx dk path =
     (if path_exists dk (path_join path ''attachments'') then
        (case listdir dk (path_join path ''attachments'') of
           Inl e \<Rightarrow> Inl e
         | Inr names \<Rightarrow> put_attachments lx dk path names)
      else Inr [])"

text \<open>
  Lines 147--204 of \<^verbatim>\<open>get_task\<close>. \<open>Inr None\<close> is \<^verbatim>\<open>return None\<close>; an exception here
  ends \<^verbatim>\<open>get_task\<close>, so the dataset stage that follows line 204 is never reached.
\<close>

definition KattisLoader_get_task_args ::
  "loader_externals \<Rightarrow> disk \<Rightarrow> string \<Rightarrow> bool \<Rightarrow> error + task_args option"
where
  "KattisLoader_get_task_args lx dk path get_statement =
     (let name = path_tail path in
      if \<not> path_exists dk (path_join path ''problem.yaml'') then Inr None
      else
        (case load_conf lx dk (path_join path ''problem.yaml'') of
           Inl e \<Rightarrow> Inl e
         | Inr None \<Rightarrow> Inl TypeError
         | Inr (Some conf) \<Rightarrow>
        (case conf ''name'' of
           None \<Rightarrow> Inl KeyError
         | Some ttl \<Rightarrow>
        (case (if get_statement
               then map_sum id Some (put_statements lx dk (glob_statements lx dk path))
               else Inr None) of
           Inl e \<Rightarrow> Inl e
         | Inr sts \<Rightarrow>
        (case load_attachments lx dk path of
           Inl e \<Rightarrow> Inl e
         | Inr atts \<Rightarrow>
             Inr (Some \<lparr>task_name = name, title = ttl, statements = sts,
                        submission_format = [name @ ''.%l''], attachments = atts\<rparr>))))))"

section \<open>Concrete inputs\<close>

text \<open>
  One instance of the external code, with the messages of CMS, a two-command language
  (\<open>Java\<close>) beside the single-command ones, and a job, a configuration and a world to
  evaluate the definitions on. Its float addition is the exact sum, which is what Python
  returns on the small integers used here.
\<close>

definition example_externals :: externals where
  "example_externals =
     \<lparr>EVALUATION_MESSAGES =
        [''success'' \<mapsto> ''Output is correct'',
         ''partial'' \<mapsto> ''Output is partially correct'',
         ''wrong'' \<mapsto> ''Output is not correct''],
      human_evaluation_message = (\<lambda>st. [''Execution timed out'']),
      float_of_string =
        (\<lambda>s. if s = ''0.5'' then Some (Finite (1 / 2))
             else if s = ''1'' then Some (Finite 1)
             else if s = ''0'' then Some (Finite 0)
             else if s = ''nan'' then Some NaN
             else None),
      format_float =
        (\<lambda>f. if f = Finite 0 then ''0.0''
             else if f = Finite 1 then ''1.0''
             else if f = Finite (1 / 2) then ''0.5''
             else ''nan''),
      float_add = (\<lambda>x y. x + y),
      check_executables_number = (\<lambda>j n. length (executables j) = n),
      check_manager_present = (\<lambda>j f. map_of (managers j) f \<noteq> None),
      get_evaluation_commands =
        (\<lambda>lang exe. if lang = ''Java''
                     then [[''/usr/bin/unzip'', exe], [''/usr/bin/java'', ''Main'']]
                     else [[''./'' @ exe]]),
      get_root_path = (\<lambda>n. ''/box/'' @ n)\<rparr>"

definition example_job :: job where
  "example_job =
     \<lparr>language = ''C++'',
      executables = [(''sum'', ''d1'')],
      managers = [(''manager'', ''d2'')],
      job_input = ''d3'',
      job_output = ''d4'',
      time_limit = 2,
      memory_limit = 268435456,
      multithreaded_sandbox = False,
      only_execution = False,
      keep_sandbox = False,
      sandboxes = [],
      success = None,
      outcome = None,
      job_text = None,
      job_plus = None\<rparr>"

definition example_config :: config where
  "example_config =
     \<lparr>temp_dir = ''/tmp'',
      trusted_sandbox_max_time_s = 10,
      trusted_sandbox_max_memory_kib = 4194304,
      config_keep_sandbox = False\<rparr>"

definition example_world :: world where
  "example_world =
     \<lparr>files = [''/tmp'' \<mapsto> Dir], fresh_names = [''a'', ''b'', ''c''], events = []\<rparr>"

definition stats_exit :: "int \<Rightarrow> stats" where
  "stats_exit c = [''exit_code'' \<mapsto> IntV c]"

text \<open>A run in which both sandboxes and both programs are reported ok and the manager
  has exit code \<open>c\<close> and leaves the files \<open>fl\<close>.\<close>

definition example_run :: "int \<Rightarrow> (string \<times> string) list \<Rightarrow> run" where
  "example_run c fl =
     \<lparr>user_result = (True, True, Some (stats_exit 0)),
      mgr_result = (True, True, Some (stats_exit c)),
      feedback_files = fl,
      user_output = ''3''\<rparr>"

definition example_loader_externals :: loader_externals where
  "example_loader_externals =
     \<lparr>put_file_from_path =
        (\<lambda>fs p. case fs p of Some (File c) \<Rightarrow> Inr (''digest of '' @ c) | _ \<Rightarrow> Inl FileNotFoundError),
      yaml_safe_load = (\<lambda>s. Inr (Some [''name'' \<mapsto> StrV s])),
      glob_statements = (\<lambda>dk p. []),
      statement_lang = (\<lambda>p. ''en'')\<rparr>"

definition example_package :: disk where
  "example_package =
     [(''/tasks/sum'', Dir),
      (''/tasks/sum/problem.yaml'', File ''Sum''),
      (''/tasks/sum/data'', Dir),
      (''/tasks/sum/attachments'', Dir),
      (''/tasks/sum/attachments/grader.h'', File ''int sum(int, int);'')]"

section \<open>Outcome extraction and result reduction: the properties\<close>

lemma verdict_given_simp [simp]:
  "st ''exit_code'' = Some c \<Longrightarrow>
   manager_verdict_given True (Some st) = Inr (py_in c [42, 43])"
  by (simp add: manager_verdict_given_def)

text \<open>
  The first rule of the reducer: when a sandbox failed, or the manager's evaluation is not
  ok after the exit codes 42 and 43 have been reclassified, the job is a failure without
  outcome, text or user stats, whatever the user side reports.
\<close>

lemma get_results_not_ok:
  assumes "manager_verdict_given bm sm = Inr given"
    and "\<not> (bu \<and> bm \<and> (given \<or> em))"
  shows "Kattis_get_results ext fs d (bu, eu, su) (bm, em, sm) j =
           Inr (j\<lparr>success := Some False, outcome := None, job_text := None, job_plus := None\<rparr>)"
  using assms by (auto simp add: Kattis_get_results_def reduce_results_def)

text \<open>
  C1. Claimed: for every manager exit code outside 42 and 43, exit code 0 included, the job
  ends with success false, no outcome, no text and no user stats. The reducer only ever
  raises the manager's evaluation flag (for 42 and 43) and never lowers it, so a manager
  that ends with exit code 0 and is reported ok keeps success true: with both sandboxes and
  the user ok, the extractor is asked, answers \<^verbatim>\<open>(None, None)\<close>, and the job is
  a success without outcome and text that keeps the user stats.
\<close>

theorem get_results_manager_exit_zero:
  "Kattis_get_results example_externals Map.empty ''/tmp/b''
     (True, True, Some (stats_exit 0)) (True, True, Some (stats_exit 0)) example_job =
   Inr (example_job\<lparr>success := Some True, outcome := None, job_text := None,
          job_plus := Some (stats_exit 0)\<rparr>)"
  by (simp add: Kattis_get_results_def manager_verdict_given_def reduce_results_def
      Kattis_extract_outcome_def py_in_def stats_exit_def example_job_def)

text \<open>
  C2. With exit code 42 and a file \<^verbatim>\<open>score_multiplier.txt\<close> in the feedback directory
  whose content parses to a value \<open>v\<close> between 0 and 1, the outcome is \<open>v\<close>, and the text is
  the "partial" message when \<open>0 < v < 1\<close> and the "success" message otherwise. With exit
  code 42 and no such file the outcome is 1.0 with the "success" message.
\<close>

theorem extract_outcome_accept:
  assumes "stats ''exit_code'' = Some (IntV 42)"
    and "EVALUATION_MESSAGES ext ''wrong'' = Some w"
    and "EVALUATION_MESSAGES ext ''partial'' = Some p"
    and "EVALUATION_MESSAGES ext ''success'' = Some s"
  shows "(fs (path_join d ''score_multiplier.txt'') = Some (File c) \<and>
          float_of_string ext c = Some (Finite v) \<and> 0 \<le> v \<and> v \<le> 1
            \<longrightarrow> Kattis_extract_outcome ext fs stats d
                  = Inr (Some (Finite v), Some [if 0 < v \<and> v < 1 then p else s]))
       \<and> (\<not> isfile fs (path_join d ''score_multiplier.txt'')
            \<longrightarrow> Kattis_extract_outcome ext fs stats d = Inr (Some (Finite 1), Some [s]))"
  using assms
  by (simp add: Kattis_extract_outcome_def py_in_def message_def isfile_def read_file_def)

theorem extract_outcome_accept_witness:
  "Kattis_extract_outcome example_externals
     [''/tmp/b/score_multiplier.txt'' \<mapsto> File ''0.5''] (stats_exit 42) ''/tmp/b''
     = Inr (Some (Finite (1 / 2)), Some [''Output is partially correct''])
   \<and> Kattis_extract_outcome example_externals Map.empty (stats_exit 42) ''/tmp/b''
     = Inr (Some (Finite 1), Some [''Output is correct''])"
proof -
  have a: "stats_exit 42 ''exit_code'' = Some (IntV 42)"
    by (simp add: stats_exit_def)
  have w: "EVALUATION_MESSAGES example_externals ''wrong'' = Some ''Output is not correct''"
    and p: "EVALUATION_MESSAGES example_externals ''partial'' = Some ''Output is partially correct''"
    and s: "EVALUATION_MESSAGES example_externals ''success'' = Some ''Output is correct''"
    by (simp_all add: example_externals_def)
  have f: "float_of_string example_externals ''0.5'' = Some (Finite (1 / 2))"
    by (simp add: example_externals_def)
  have "Kattis_extract_outcome example_externals
          [''/tmp/b/score_multiplier.txt'' \<mapsto> File ''0.5''] (stats_exit 42) ''/tmp/b''
        = Inr (Some (Finite (1 / 2)), Some [''Output is partially correct''])"
    using extract_outcome_accept [where stats = "stats_exit 42" and ext = example_externals
        and fs = "[''/tmp/b/score_multiplier.txt'' \<mapsto> File ''0.5'']" and d = "''/tmp/b''"
        and c = "''0.5''" and v = "1 / 2", OF a w p s] f
    by (simp add: path_join_def)
  moreover
  have "Kattis_extract_outcome example_externals Map.empty (stats_exit 42) ''/tmp/b''
        = Inr (Some (Finite 1), Some [''Output is correct''])"
    using extract_outcome_accept [where stats = "stats_exit 42" and ext = example_externals
        and fs = Map.empty and d = "''/tmp/b''", OF a w p s]
    by (simp add: isfile_def)
  ultimately show ?thesis by simp
qed

text \<open>
  C3. With exit code 43 the outcome is 0.0 and the text is the "wrong" message, for every
  file system and every float parser: the multiplier file plays no part.
\<close>

theorem extract_outcome_reject:
  assumes "stats ''exit_code'' = Some (IntV 43)"
    and "EVALUATION_MESSAGES ext ''wrong'' = Some w"
  shows "Kattis_extract_outcome ext fs stats d = Inr (Some (Finite 0), Some [w])"
  using assms by (simp add: Kattis_extract_outcome_def py_in_def message_def)

theorem extract_outcome_reject_witness:
  "Kattis_extract_outcome example_externals
     [''/tmp/b/score_multiplier.txt'' \<mapsto> File ''0.5''] (stats_exit 43) ''/tmp/b''
   = Inr (Some (Finite 0), Some [''Output is not correct''])"
proof -
  have a: "stats_exit 43 ''exit_code'' = Some (IntV 43)"
    by (simp add: stats_exit_def)
  have w: "EVALUATION_MESSAGES example_externals ''wrong'' = Some ''Output is not correct''"
    by (simp add: example_externals_def)
  show ?thesis
    using extract_outcome_reject [where stats = "stats_exit 43" and ext = example_externals, OF a w]
    by simp
qed

text \<open>
  C4, as claimed: with both sandboxes and the manager's evaluation ok and the user's
  evaluation not ok, the text describes the violation. In \<^verbatim>\<open>only_execution\<close> mode it
  does not: that branch comes first and gives its fixed text.
\<close>

theorem user_failure_text_counterexample:
  "Kattis_get_results example_externals Map.empty ''/tmp/b''
     (True, False, Some (stats_exit 1)) (True, True, Some (stats_exit 42))
     (example_job\<lparr>only_execution := True\<rparr>) =
   Inr (example_job\<lparr>only_execution := True, success := Some True, outcome := Some ''0.0'',
          job_text := Some [''Execution completed successfully''],
          job_plus := Some (stats_exit 1)\<rparr>)
   \<and> human_evaluation_message example_externals (Some (stats_exit 1))
       \<noteq> [''Execution completed successfully'']"
  by (simp add: Kattis_get_results_def reduce_results_def stats_exit_def
      example_externals_def example_job_def manager_verdict_given_def py_in_def)

text \<open>
  C4, amended: outside \<^verbatim>\<open>only_execution\<close> mode, with both sandboxes ok, the manager's
  evaluation ok (reported ok, or exit code 42 or 43) and the user's evaluation not ok, the
  job is a success with outcome 0.0, the text that \<^verbatim>\<open>human_evaluation_message\<close> gives for
  the user stats, and the user stats. The file system, the message table and the float
  parser are arbitrary: the manager's verdict is not consulted.
\<close>

theorem get_results_user_failure:
  assumes "st ''exit_code'' = Some c"
    and "e \<or> py_in c [42, 43]"
    and "\<not> only_execution j"
  shows "Kattis_get_results ext fs d (True, False, su) (True, e, Some st) j =
           Inr (j\<lparr>success := Some True,
                  outcome := Some (format_float ext (Finite 0)),
                  job_text := Some (human_evaluation_message ext su),
                  job_plus := su\<rparr>)"
  using assms by (auto simp add: Kattis_get_results_def reduce_results_def)

theorem get_results_user_failure_witness:
  "Kattis_get_results example_externals Map.empty ''/tmp/b''
     (True, False, Some (stats_exit 1)) (True, True, Some (stats_exit 42)) example_job =
   Inr (example_job\<lparr>success := Some True, outcome := Some ''0.0'',
          job_text := Some [''Execution timed out''], job_plus := Some (stats_exit 1)\<rparr>)"
proof -
  have a: "stats_exit 42 ''exit_code'' = Some (IntV 42)" by (simp add: stats_exit_def)
  have b: "True \<or> py_in (IntV 42) [42, 43]" by simp
  have c: "\<not> only_execution example_job" by (simp add: example_job_def)
  show ?thesis
    using get_results_user_failure [where st = "stats_exit 42" and c = "IntV 42" and e = True
        and j = example_job and ext = example_externals and fs = Map.empty
        and d = "''/tmp/b''" and su = "Some (stats_exit 1)", OF a b c]
    by (simp add: example_externals_def)
qed

text \<open>
  C6, as claimed: in \<^verbatim>\<open>only_execution\<close> mode the job always ends as a success with
  outcome 0.0 and the fixed text. It does not when a sandbox failed: the test of
  \<^verbatim>\<open>success\<close> comes before the test of the mode.
\<close>

theorem only_execution_counterexample:
  "Kattis_get_results example_externals Map.empty ''/tmp/b''
     (False, False, None) (True, True, Some (stats_exit 42))
     (example_job\<lparr>only_execution := True\<rparr>) =
   Inr (example_job\<lparr>only_execution := True, success := Some False, outcome := None,
          job_text := None, job_plus := None\<rparr>)"
  by (simp add: Kattis_get_results_def reduce_results_def stats_exit_def
      example_externals_def example_job_def manager_verdict_given_def py_in_def)

text \<open>
  C6, amended: in \<^verbatim>\<open>only_execution\<close> mode, with both sandboxes ok and the manager's
  evaluation ok (reported ok, or exit code 42 or 43), the job is a success with outcome 0.0
  and the text "Execution completed successfully", whatever the exit code, the user's
  evaluation flag and the feedback directory hold.
\<close>

theorem get_results_only_execution:
  assumes "only_execution j"
    and "st ''exit_code'' = Some c"
    and "e \<or> py_in c [42, 43]"
  shows "Kattis_get_results ext fs d (True, eu, su) (True, e, Some st) j =
           Inr (j\<lparr>success := Some True,
                  outcome := Some (format_float ext (Finite 0)),
                  job_text := Some [''Execution completed successfully''],
                  job_plus := su\<rparr>)"
  using assms by (auto simp add: Kattis_get_results_def reduce_results_def)

theorem get_results_only_execution_witness:
  "Kattis_get_results example_externals
     [''/tmp/b/score_multiplier.txt'' \<mapsto> File ''0.5'']  ''/tmp/b''
     (True, True, Some (stats_exit 0)) (True, False, Some (stats_exit 43))
     (example_job\<lparr>only_execution := True\<rparr>) =
   Inr (example_job\<lparr>only_execution := True, success := Some True, outcome := Some ''0.0'',
          job_text := Some [''Execution completed successfully''],
          job_plus := Some (stats_exit 0)\<rparr>)"
proof -
  have a: "only_execution (example_job\<lparr>only_execution := True\<rparr>)" by simp
  have b: "stats_exit 43 ''exit_code'' = Some (IntV 43)" by (simp add: stats_exit_def)
  have c: "False \<or> py_in (IntV 43) [42, 43]" by (simp add: py_in_def)
  show ?thesis
    using get_results_only_execution [where st = "stats_exit 43" and c = "IntV 43" and e = False
        and j = "example_job\<lparr>only_execution := True\<rparr>" and ext = example_externals
        and fs = "[''/tmp/b/score_multiplier.txt'' \<mapsto> File ''0.5'']"
        and d = "''/tmp/b''" and eu = True and su = "Some (stats_exit 0)", OF a b c]
    by (simp add: example_externals_def)
qed

text \<open>
  A content that \<^verbatim>\<open>float(...)\<close> accepts as NaN is not an error: it becomes the outcome,
  with the "success" message, since no comparison with NaN holds.
\<close>

lemma extract_outcome_nan:
  assumes "stats ''exit_code'' = Some (IntV 42)"
    and "EVALUATION_MESSAGES ext ''wrong'' = Some w"
    and "EVALUATION_MESSAGES ext ''success'' = Some s"
    and "fs (path_join d ''score_multiplier.txt'') = Some (File c)"
    and "float_of_string ext c = Some NaN"
  shows "Kattis_extract_outcome ext fs stats d = Inr (Some NaN, Some [s])"
  using assms
  by (simp add: Kattis_extract_outcome_def py_in_def message_def isfile_def read_file_def)




section \<open>The orchestrators: the properties\<close>

text \<open>What each stage adds to the calls made so far.\<close>

lemma events_mkdtemp: "mkdtemp w d = Inr (p, w1) \<Longrightarrow> events w1 = events w"
  by (auto simp add: mkdtemp_def split: option.splits node.splits)

lemma events_mkfifo: "mkfifo w p = Inr w1 \<Longrightarrow> events w1 = events w"
  by (auto simp add: mkfifo_def split: if_splits)

lemma finish_events:
  "finish ext cfg r fd doomed w j = (res, w', j') \<Longrightarrow>
   events w' = events w \<or>
   (\<exists>b k. events w' = events w @ [DeleteSandbox ''manager_evaluate'' b k, DeleteSandbox ''user_evaluate'' b k])"
  by (auto simp add: finish_def emit_def Let_def split: sum.splits if_splits prod.splits option.splits)

lemma finish_limits:
  "finish ext cfg r fd doomed w j = (res, w', j') \<Longrightarrow>
   time_limit j' = time_limit j \<and> memory_limit j' = memory_limit j"
  by (auto simp add: finish_def Kattis_get_results_def Let_def split: sum.splits if_splits prod.splits option.splits)


lemma interactive_limits:
  assumes "Kattis_evaluate_interactive ext cfg r w j = (res, w', j')"
    and "events w = []" and "Start l \<in> set (events w')"
  shows "(l_sandbox l = ''manager_evaluate''
        \<and> l_time_limit l = max (float_add ext (time_limit j) 1) (trusted_sandbox_max_time_s cfg)
        \<and> l_memory_limit l = trusted_sandbox_max_memory_kib cfg * 1024)
    \<or> (l_sandbox l = ''user_evaluate''
        \<and> l_time_limit l = time_limit j \<and> l_memory_limit l = memory_limit j)"
  using assms
  apply (simp add: Kattis_evaluate_interactive_def Let_def split: sum.splits option.splits prod.splits)
  apply (auto simp add: create_manager_sandbox_def create_user_sandbox_def start_manager_def
       start_user_def emit_def wait_without_std_def Let_def
       dest!: events_mkdtemp events_mkfifo finish_events split: if_splits)
  done

lemma noninteractive_limits:
  assumes "Kattis_evaluate_noninteractive ext cfg r w j = (res, w', j')"
    and "events w = []" and "Start l \<in> set (events w')"
  shows "(l_sandbox l = ''manager_evaluate''
        \<and> l_time_limit l = max (float_add ext (time_limit j) 1) (trusted_sandbox_max_time_s cfg)
        \<and> l_memory_limit l = trusted_sandbox_max_memory_kib cfg * 1024)
    \<or> (l_sandbox l = ''user_evaluate''
        \<and> l_time_limit l = time_limit j \<and> l_memory_limit l = memory_limit j)"
  using assms
  apply (simp add: Kattis_evaluate_noninteractive_def Let_def split: sum.splits option.splits prod.splits)
  apply (auto simp add: create_manager_sandbox_def create_user_sandbox_def start_manager_def
       start_user_def emit_def wait_without_std_def Let_def
       dest!: events_mkdtemp events_mkfifo finish_events split: if_splits)
  done

lemma interactive_both_started:
  assumes "Kattis_evaluate_interactive ext cfg r w j = (res, w', j')"
    and "events w = []" and "DeleteSandbox s b k \<in> set (events w')"
  shows "(\<exists>l. Start l \<in> set (events w') \<and> l_sandbox l = ''manager_evaluate'')
       \<and> (\<exists>l. Start l \<in> set (events w') \<and> l_sandbox l = ''user_evaluate'')"
  using assms
  apply (simp add: Kattis_evaluate_interactive_def Let_def split: sum.splits option.splits prod.splits)
  apply (auto simp add: create_manager_sandbox_def create_user_sandbox_def start_manager_def
       start_user_def emit_def wait_without_std_def Let_def
       dest!: events_mkdtemp events_mkfifo finish_events split: if_splits)
  done


lemma noninteractive_both_started:
  assumes "Kattis_evaluate_noninteractive ext cfg r w j = (res, w', j')"
    and "events w = []" and "DeleteSandbox s b k \<in> set (events w')"
  shows "(\<exists>l. Start l \<in> set (events w') \<and> l_sandbox l = ''manager_evaluate'')
       \<and> (\<exists>l. Start l \<in> set (events w') \<and> l_sandbox l = ''user_evaluate'')"
  using assms
  apply (simp add: Kattis_evaluate_noninteractive_def Let_def split: sum.splits option.splits prod.splits)
  apply (auto simp add: create_manager_sandbox_def create_user_sandbox_def start_manager_def
       start_user_def emit_def wait_without_std_def Let_def
       dest!: events_mkdtemp events_mkfifo finish_events split: if_splits)
  done






text \<open>The definitions that a run on concrete inputs unfolds.\<close>

lemmas evaluation_defs =
  Kattis_evaluate_def Kattis_evaluate_interactive_def Kattis_evaluate_noninteractive_def
  lookup_programs_def example_externals_def
  example_job_def example_config_def example_world_def example_run_def stats_exit_def
  mkdtemp_def mkfifo_def path_join_def create_user_sandbox_def create_manager_sandbox_def
  start_user_def start_manager_def emit_def wait_without_std_def user_writes_def
  manager_writes_def write_files_def finish_def Kattis_get_results_def
  manager_verdict_given_def reduce_results_def Kattis_extract_outcome_def py_in_def message_def
  isfile_def read_file_def rmtree_def MANAGER_FILENAME_def INPUT_FILENAME_def ANSWER_FILENAME_def
  Let_def

subsection \<open>Removal of the directories\<close>

lemma rmtree_gone: "rmtree fs d = Inr fs' \<Longrightarrow> fs' d = None"
  by (auto simp add: rmtree_def split: if_splits)

lemma rmtree_mono: "rmtree fs d = Inr fs' \<Longrightarrow> fs p = None \<Longrightarrow> fs' p = None"
  by (auto simp add: rmtree_def split: if_splits)

lemma rmtrees_mono: "rmtrees fs ds = (res, fs') \<Longrightarrow> fs p = None \<Longrightarrow> fs' p = None"
proof (induction ds arbitrary: fs)
  case Nil
  then show ?case by simp
next
  case (Cons d ds)
  then show ?case
    by (auto split: sum.splits dest: rmtree_mono)
qed

lemma rmtrees_gone: "rmtrees fs ds = (None, fs') \<Longrightarrow> d \<in> set ds \<Longrightarrow> fs' d = None"
proof (induction ds arbitrary: fs)
  case Nil
  then show ?case by simp
next
  case (Cons a ds)
  then show ?case
    by (auto split: sum.splits dest: rmtree_gone rmtrees_mono)
qed

lemma get_results_keep:
  "Kattis_get_results ext fs d u m j = Inr j' \<Longrightarrow> keep_sandbox j' = keep_sandbox j"
  by (auto simp add: Kattis_get_results_def Let_def split: sum.splits prod.splits)

text \<open>
  The last stage removes exactly the directories it is given, and only after a success
  without retention; otherwise the file system is left as it was.
\<close>

lemma finish_removes:
  assumes "finish ext cfg r fd doomed w j = (Inr (), w', j')"
    and "success j' = Some True" and "\<not> config_keep_sandbox cfg" and "\<not> keep_sandbox j"
    and "d \<in> set doomed"
  shows "files w' d = None"
  using assms
  by (auto simp add: finish_def Let_def emit_def
      split: sum.splits prod.splits option.splits if_splits
      dest: rmtrees_gone get_results_keep)

lemma finish_keeps:
  assumes "finish ext cfg r fd doomed w j = (res, w', j')"
    and "success j' \<noteq> Some True \<or> config_keep_sandbox cfg \<or> keep_sandbox j"
  shows "files w' = files w"
  using assms
  by (auto simp add: finish_def Let_def emit_def
      split: sum.splits prod.splits option.splits if_splits
      dest: get_results_keep)

text \<open>
  The interactive orchestrator hands both of its directories to the last stage: after a
  successful run without retention the FIFO directory \<^verbatim>\<open>/tmp/a\<close>, its two pipes and the
  feedback directory \<^verbatim>\<open>/tmp/b\<close> with the manager's file are gone.
\<close>

lemma interactive_directories_removed:
  "(case Kattis_evaluate_interactive example_externals example_config
           (example_run 42 [(''score_multiplier.txt'', ''0.5'')]) example_world example_job of
      (res, w', j') \<Rightarrow>
        res = Inr () \<and> success j' = Some True \<and> outcome j' = Some ''0.5''
        \<and> job_text j' = Some [''Output is partially correct'']
        \<and> map (files w') [''/tmp/a'', ''/tmp/a/u_to_m'', ''/tmp/a/m_to_u'', ''/tmp/b'',
                           ''/tmp/b/score_multiplier.txt'']
            = [None, None, None, None, None])"
  by (simp add: evaluation_defs)

text \<open>
  A whole interactive run in which the manager accepts and leaves a multiplier file that
  \<^verbatim>\<open>float(...)\<close> rejects: the run ends with \<^verbatim>\<open>ValueError\<close>, the job's result fields
  are unwritten, no sandbox is released and both directories stay.
\<close>

lemma interactive_unparsable_multiplier:
  "(case Kattis_evaluate_interactive example_externals example_config
           (example_run 42 [(''score_multiplier.txt'', ''half'')]) example_world example_job of
      (res, w', j') \<Rightarrow>
        res = Inl ValueError \<and> success j' = None \<and> outcome j' = None \<and> job_text j' = None
        \<and> last (events w') = Wait [''user_evaluate'', ''manager_evaluate'']
        \<and> map (files w') [''/tmp/a'', ''/tmp/b'', ''/tmp/b/score_multiplier.txt'']
            = [Some Dir, Some Dir, Some (File ''half'')])"
  by (simp add: evaluation_defs)

text \<open>
  C5. Claimed: after a successful evaluation without retention none of the ephemeral
  directories remains, the output directory of the non-interactive mode included. The
  non-interactive orchestrator hands only the feedback directory to the last stage. In
  this run the user process gets \<^verbatim>\<open>/tmp/a\<close> mounted as \<^verbatim>\<open>/output\<close>; the job succeeds
  with outcome 1.0 and no retention is asked for; the feedback directory \<^verbatim>\<open>/tmp/b\<close> is
  gone, the output directory and the user's output in it are still there.
\<close>

theorem noninteractive_output_directory_remains:
  "(case Kattis_evaluate_noninteractive example_externals example_config (example_run 42 [])
           example_world example_job of
      (res, w', j') \<Rightarrow>
        res = Inr () \<and> success j' = Some True \<and> outcome j' = Some ''1.0''
        \<and> Start \<lparr>l_sandbox = ''user_evaluate'', l_command = [''./sum''],
                  l_time_limit = 2, l_memory_limit = 268435456,
                  l_dirs_map = [(''/tmp/a'', ''/output'', ''rw'')],
                  l_stdin_redirect = Some ''input.txt'',
                  l_stdout_redirect = Some ''/output/output.txt'',
                  l_multiprocess = False\<rparr> \<in> set (events w')
        \<and> files w' ''/tmp/a'' = Some Dir
        \<and> files w' ''/tmp/a/output.txt'' = Some (File ''3'')
        \<and> files w' ''/tmp/b'' = None)"
  by (simp add: evaluation_defs)

subsection \<open>Limits of the two processes\<close>

text \<open>
  The processes started by a run whose preparation succeeds: the two checks pass, the
  language has a single evaluation command and the directories can be created.
\<close>

lemma launches_append: "launches (xs @ ys) = launches xs @ launches ys"
  by (induction xs rule: launches.induct) simp_all

lemma finish_launches:
  assumes "finish ext cfg r fd doomed w j = (res, w', j')"
  shows "launches (events w') = launches (events w)"
  using finish_events [OF assms] by (auto simp add: launches_append)

lemma mkdtemp_any_events:
  assumes "mkdtemp wb d = Inr (p, wb')"
    and "files wa = files wb" and "fresh_names wa = fresh_names wb"
  shows "\<exists>wa'. mkdtemp wa d = Inr (p, wa') \<and> events wa' = events wa"
  using assms
  by (auto simp add: mkdtemp_def split: option.splits node.splits)

lemma interactive_launches:
  assumes run: "Kattis_evaluate_interactive ext cfg r w j = (res, w', j')"
    and ev: "events w = []"
    and c1: "check_executables_number ext j 1"
    and ex: "executables j = (f, d) # rest"
    and c2: "check_manager_present ext j MANAGER_FILENAME"
    and mg: "map_of (managers j) MANAGER_FILENAME = Some md"
    and cm: "get_evaluation_commands ext (language j) f = [cmd]"
    and d1: "mkdtemp w (temp_dir cfg) = Inr (fifo_dir, w1)"
    and f1: "mkfifo w1 (path_join fifo_dir ''u_to_m'') = Inr w2"
    and f2: "mkfifo w2 (path_join fifo_dir ''m_to_u'') = Inr w3"
    and d2: "mkdtemp w3 (temp_dir cfg) = Inr (feedback_dir, w4)"
  shows "map (\<lambda>l. (l_sandbox l, l_time_limit l, l_memory_limit l)) (launches (events w')) =
           [(''manager_evaluate'',
             max (float_add ext (time_limit j) 1) (trusted_sandbox_max_time_s cfg),
             trusted_sandbox_max_memory_kib cfg * 1024),
            (''user_evaluate'', time_limit j, memory_limit j)]"
proof -
  have e4: "events w4 = []"
    using events_mkdtemp [OF d1] events_mkfifo [OF f1] events_mkfifo [OF f2]
      events_mkdtemp [OF d2] ev by simp
  obtain w9 j2 where
    fin: "finish ext cfg r feedback_dir [fifo_dir, feedback_dir] w9 j2 = (res, w', j')"
    and l9: "map (\<lambda>l. (l_sandbox l, l_time_limit l, l_memory_limit l)) (launches (events w9)) =
           [(''manager_evaluate'',
             max (float_add ext (time_limit j) 1) (trusted_sandbox_max_time_s cfg),
             trusted_sandbox_max_memory_kib cfg * 1024),
            (''user_evaluate'', time_limit j, memory_limit j)]"
    using run c1 ex c2 mg cm d1 f1 f2 d2 e4
    by (simp add: Kattis_evaluate_interactive_def lookup_programs_def Let_def
        create_manager_sandbox_def create_user_sandbox_def start_manager_def start_user_def
        emit_def wait_without_std_def)
  show ?thesis
    using finish_launches [OF fin] l9 by simp
qed

lemma noninteractive_launches:
  assumes run: "Kattis_evaluate_noninteractive ext cfg r w j = (res, w', j')"
    and ev: "events w = []"
    and c1: "check_executables_number ext j 1"
    and ex: "executables j = (f, d) # rest"
    and c2: "check_manager_present ext j MANAGER_FILENAME"
    and mg: "map_of (managers j) MANAGER_FILENAME = Some md"
    and cm: "get_evaluation_commands ext (language j) f = [cmd]"
    and d1: "mkdtemp w (temp_dir cfg) = Inr (output_dir, w1)"
    and d2: "mkdtemp (w1\<lparr>files := user_writes r output_dir (files w1)\<rparr>) (temp_dir cfg)
               = Inr (feedback_dir, w6)"
  shows "map (\<lambda>l. (l_sandbox l, l_time_limit l, l_memory_limit l)) (launches (events w')) =
           [(''user_evaluate'', time_limit j, memory_limit j),
            (''manager_evaluate'',
             max (float_add ext (time_limit j) 1) (trusted_sandbox_max_time_s cfg),
             trusted_sandbox_max_memory_kib cfg * 1024)]"
proof -
  have e1: "events w1 = []"
    using events_mkdtemp [OF d1] ev by simp
  let ?w5 = "wait_without_std [''user_evaluate''] (user_writes r output_dir)
      (emit (emit (fst (create_user_sandbox ext f d w1 j))
          [CreateFile ''user_evaluate'' INPUT_FILENAME (job_input j) False])
        [Start \<lparr>l_sandbox = ''user_evaluate'', l_command = cmd,
                 l_time_limit = time_limit j, l_memory_limit = memory_limit j,
                 l_dirs_map = [(output_dir, ''/output'', ''rw'')],
                 l_stdin_redirect = Some INPUT_FILENAME,
                 l_stdout_redirect = Some (path_join ''/output'' ''output.txt''),
                 l_multiprocess = multithreaded_sandbox j\<rparr>])"
  have "files ?w5 = user_writes r output_dir (files w1)" "fresh_names ?w5 = fresh_names w1"
    by (simp_all add: wait_without_std_def emit_def create_user_sandbox_def)
  from mkdtemp_any_events [OF d2, of ?w5] this
  obtain w6' where d2': "mkdtemp ?w5 (temp_dir cfg) = Inr (feedback_dir, w6')"
    and e6: "events w6' = events ?w5"
    by auto
  obtain w9 j2 where
    fin: "finish ext cfg r feedback_dir [feedback_dir] w9 j2 = (res, w', j')"
    and l9: "map (\<lambda>l. (l_sandbox l, l_time_limit l, l_memory_limit l)) (launches (events w9)) =
           [(''user_evaluate'', time_limit j, memory_limit j),
            (''manager_evaluate'',
             max (float_add ext (time_limit j) 1) (trusted_sandbox_max_time_s cfg),
             trusted_sandbox_max_memory_kib cfg * 1024)]"
    using run c1 ex c2 mg cm d1 d2' e6 e1
    by (simp add: Kattis_evaluate_noninteractive_def lookup_programs_def Let_def
        create_manager_sandbox_def create_user_sandbox_def start_manager_def start_user_def
        emit_def wait_without_std_def)
  show ?thesis
    using finish_launches [OF fin] l9 by simp
qed


text \<open>
  C7. In either mode, every process that the orchestrator starts is the manager, with the
  time limit \<^verbatim>\<open>max(job.time_limit + 1.0, config.trusted_sandbox_max_time_s)\<close> and the
  memory limit \<^verbatim>\<open>config.trusted_sandbox_max_memory_kib * 1024\<close>, or the user process, with
  the job's own time and memory limit, and an evaluation that came to release its sandboxes
  has started both. When the two checks pass, the language has a single evaluation command
  and the directories can be created, exactly two processes are started with these limits:
  the manager and then the user process in the interactive mode, the user process and then
  the manager in the non-interactive mode.
\<close>

theorem process_limits:
  assumes "Kattis_evaluate interactive ext cfg r w j = (res, w', j')"
    and "events w = []"
  shows "(\<forall>l. Start l \<in> set (events w') \<longrightarrow>
            (l_sandbox l = ''manager_evaluate''
              \<and> l_time_limit l
                  = max (float_add ext (time_limit j) 1) (trusted_sandbox_max_time_s cfg)
              \<and> l_memory_limit l = trusted_sandbox_max_memory_kib cfg * 1024)
          \<or> (l_sandbox l = ''user_evaluate''
              \<and> l_time_limit l = time_limit j \<and> l_memory_limit l = memory_limit j))
       \<and> ((\<exists>s b k. DeleteSandbox s b k \<in> set (events w')) \<longrightarrow>
            (\<exists>l. Start l \<in> set (events w') \<and> l_sandbox l = ''manager_evaluate'')
          \<and> (\<exists>l. Start l \<in> set (events w') \<and> l_sandbox l = ''user_evaluate''))
       \<and> (check_executables_number ext j 1 \<and> executables j = (f, d) # rest
            \<and> check_manager_present ext j MANAGER_FILENAME
            \<and> map_of (managers j) MANAGER_FILENAME = Some md
            \<and> get_evaluation_commands ext (language j) f = [cmd] \<longrightarrow>
          (interactive
            \<and> mkdtemp w (temp_dir cfg) = Inr (fifo_dir, w1)
            \<and> mkfifo w1 (path_join fifo_dir ''u_to_m'') = Inr w2
            \<and> mkfifo w2 (path_join fifo_dir ''m_to_u'') = Inr w3
            \<and> mkdtemp w3 (temp_dir cfg) = Inr (feedback_dir, w4) \<longrightarrow>
           map (\<lambda>l. (l_sandbox l, l_time_limit l, l_memory_limit l)) (launches (events w')) =
             [(''manager_evaluate'',
               max (float_add ext (time_limit j) 1) (trusted_sandbox_max_time_s cfg),
               trusted_sandbox_max_memory_kib cfg * 1024),
              (''user_evaluate'', time_limit j, memory_limit j)])
        \<and> (\<not> interactive
            \<and> mkdtemp w (temp_dir cfg) = Inr (output_dir, v1)
            \<and> mkdtemp (v1\<lparr>files := user_writes r output_dir (files v1)\<rparr>) (temp_dir cfg)
                = Inr (feedback_dir', v2) \<longrightarrow>
           map (\<lambda>l. (l_sandbox l, l_time_limit l, l_memory_limit l)) (launches (events w')) =
             [(''user_evaluate'', time_limit j, memory_limit j),
              (''manager_evaluate'',
               max (float_add ext (time_limit j) 1) (trusted_sandbox_max_time_s cfg),
               trusted_sandbox_max_memory_kib cfg * 1024)]))"
proof (cases interactive)
  case True
  with assms(1) have e: "Kattis_evaluate_interactive ext cfg r w j = (res, w', j')"
    by (simp add: Kattis_evaluate_def)
  show ?thesis
    using True interactive_limits [OF e assms(2)] interactive_both_started [OF e assms(2)]
      interactive_launches [OF e assms(2)]
    by blast
next
  case False
  with assms(1) have e: "Kattis_evaluate_noninteractive ext cfg r w j = (res, w', j')"
    by (simp add: Kattis_evaluate_def)
  show ?thesis
    using False noninteractive_limits [OF e assms(2)] noninteractive_both_started [OF e assms(2)]
      noninteractive_launches [OF e assms(2)]
    by blast
qed

theorem process_limits_witness:
  "map (\<lambda>l. (l_sandbox l, l_time_limit l, l_memory_limit l))
     (launches (events (fst (snd (Kattis_evaluate True example_externals example_config
        (example_run 42 []) example_world example_job)))))
     = [(''manager_evaluate'', 10, 4294967296), (''user_evaluate'', 2, 268435456)]
   \<and> map (\<lambda>l. (l_sandbox l, l_time_limit l, l_memory_limit l))
     (launches (events (fst (snd (Kattis_evaluate False example_externals example_config
        (example_run 42 []) example_world example_job)))))
     = [(''user_evaluate'', 2, 268435456), (''manager_evaluate'', 10, 4294967296)]"
proof -
  let ?E = "\<lambda>b. Kattis_evaluate b example_externals example_config (example_run 42 [])
              example_world example_job"
  let ?w1 = "\<lparr>files = [''/tmp'' \<mapsto> Dir, ''/tmp/a'' \<mapsto> Dir],
               fresh_names = [''b'', ''c''], events = []\<rparr>"
  let ?w2 = "\<lparr>files = [''/tmp'' \<mapsto> Dir, ''/tmp/a'' \<mapsto> Dir, ''/tmp/a/u_to_m'' \<mapsto> Fifo],
               fresh_names = [''b'', ''c''], events = []\<rparr>"
  let ?w3 = "\<lparr>files = [''/tmp'' \<mapsto> Dir, ''/tmp/a'' \<mapsto> Dir, ''/tmp/a/u_to_m'' \<mapsto> Fifo,
                        ''/tmp/a/m_to_u'' \<mapsto> Fifo],
               fresh_names = [''b'', ''c''], events = []\<rparr>"
  let ?w4 = "\<lparr>files = [''/tmp'' \<mapsto> Dir, ''/tmp/a'' \<mapsto> Dir, ''/tmp/a/u_to_m'' \<mapsto> Fifo,
                        ''/tmp/a/m_to_u'' \<mapsto> Fifo, ''/tmp/b'' \<mapsto> Dir],
               fresh_names = [''c''], events = []\<rparr>"
  let ?v2 = "\<lparr>files = [''/tmp'' \<mapsto> Dir, ''/tmp/a'' \<mapsto> Dir,
                        ''/tmp/a/output.txt'' \<mapsto> File ''3'', ''/tmp/b'' \<mapsto> Dir],
               fresh_names = [''c''], events = []\<rparr>"
  have e: "?E b = (fst (?E b), fst (snd (?E b)), snd (snd (?E b)))" for b
    by simp
  have w: "events example_world = []"
    by (simp add: example_world_def)
  have checks: "check_executables_number example_externals example_job 1
      \<and> executables example_job = (''sum'', ''d1'') # []
      \<and> check_manager_present example_externals example_job MANAGER_FILENAME
      \<and> map_of (managers example_job) MANAGER_FILENAME = Some ''d2''
      \<and> get_evaluation_commands example_externals (language example_job) ''sum'' = [[''./sum'']]"
    by (simp add: example_externals_def example_job_def MANAGER_FILENAME_def)
  have d1: "mkdtemp example_world (temp_dir example_config) = Inr (''/tmp/a'', ?w1)"
    by (simp add: mkdtemp_def example_world_def example_config_def path_join_def)
  have f1: "mkfifo ?w1 (path_join ''/tmp/a'' ''u_to_m'') = Inr ?w2"
    by (simp add: mkfifo_def path_join_def)
  have f2: "mkfifo ?w2 (path_join ''/tmp/a'' ''m_to_u'') = Inr ?w3"
    by (simp add: mkfifo_def path_join_def)
  have d2: "mkdtemp ?w3 (temp_dir example_config) = Inr (''/tmp/b'', ?w4)"
    by (simp add: mkdtemp_def example_config_def path_join_def)
  have d3: "mkdtemp (?w1\<lparr>files := user_writes (example_run 42 []) ''/tmp/a'' (files ?w1)\<rparr>)
              (temp_dir example_config) = Inr (''/tmp/b'', ?v2)"
    by (simp add: mkdtemp_def example_config_def path_join_def user_writes_def example_run_def)
  have lim: "max (float_add example_externals (time_limit example_job) 1)
               (trusted_sandbox_max_time_s example_config) = 10"
    "trusted_sandbox_max_memory_kib example_config * 1024 = 4294967296"
    "time_limit example_job = 2" "memory_limit example_job = 268435456"
    by (simp_all add: example_job_def example_config_def example_externals_def)
  have "map (\<lambda>l. (l_sandbox l, l_time_limit l, l_memory_limit l))
          (launches (events (fst (snd (?E True)))))
        = [(''manager_evaluate'', 10, 4294967296), (''user_evaluate'', 2, 268435456)]"
    using process_limits [OF e [of True] w, where f = "''sum''" and d = "''d1''" and rest = "[]"
        and md = "''d2''" and cmd = "[''./sum'']" and fifo_dir = "''/tmp/a''" and ?w1.0 = ?w1
        and ?w2.0 = ?w2 and ?w3.0 = ?w3 and feedback_dir = "''/tmp/b''" and ?w4.0 = ?w4]
      checks d1 f1 f2 d2 lim
    by simp
  moreover
  have "map (\<lambda>l. (l_sandbox l, l_time_limit l, l_memory_limit l))
          (launches (events (fst (snd (?E False)))))
        = [(''user_evaluate'', 2, 268435456), (''manager_evaluate'', 10, 4294967296)]"
    using process_limits [OF e [of False] w, where f = "''sum''" and d = "''d1''" and rest = "[]"
        and md = "''d2''" and cmd = "[''./sum'']" and output_dir = "''/tmp/a''" and ?v1.0 = ?w1
        and feedback_dir' = "''/tmp/b''" and ?v2.0 = ?v2]
      checks d1 d3 lim
    by simp
  ultimately show ?thesis by simp
qed

subsection \<open>The setup commands\<close>



section \<open>The task loader: the properties\<close>

text \<open>
  With both directories in the package, the digest stored for an attachment named in
  \<^verbatim>\<open>attachments\<close> is that of the file of the same name under \<^verbatim>\<open>att\<close>.
\<close>

lemma attachment_content_comes_from_att:
  "KattisLoader_get_task_args example_loader_externals
     (example_package @ [(''/tasks/sum/att'', Dir), (''/tasks/sum/att/grader.h'', File ''other'')])
     ''/tasks/sum'' True
   = Inr (Some \<lparr>task_name = ''sum'', title = StrV ''Sum'', statements = Some [],
                submission_format = [''sum.%l''],
                attachments = [(''grader.h'', ''digest of other'')]\<rparr>)"
  by (simp add: KattisLoader_get_task_args_def load_conf_def read_file_def path_exists_def
      load_attachments_def listdir_def entry_name_def example_package_def path_join_def
      List.map_filter_def example_loader_externals_def path_tail_def)

text \<open>
  C10. When the package has a \<^verbatim>\<open>problem.yaml\<close> that loads and names the task, the
  statements (if asked for) are stored, \<^verbatim>\<open>attachments\<close> lists at least one name \<open>f\<close>,
  and nothing exists at \<^verbatim>\<open>att/f\<close>, then \<^verbatim>\<open>get_task\<close> ends in the file cacher's
  \<^verbatim>\<open>FileNotFoundError\<close> (the cacher raises it for a path that does not exist) instead
  of returning a task with the attachment.
\<close>

theorem attachments_read_from_att:
  assumes "map_of dk (path_join path ''problem.yaml'') = Some (File y)"
    and "yaml_safe_load lx y = Inr (Some conf)"
    and "conf ''name'' = Some t"
    and "get_statement \<longrightarrow> put_statements lx dk (glob_statements lx dk path) = Inr sts"
    and "listdir dk (path_join path ''attachments'') = Inr (f # rest)"
    and "map_of dk (path_join (path_join path ''att'') f) = None"
    and "\<forall>fs p. fs p = None \<longrightarrow> put_file_from_path lx fs p = Inl FileNotFoundError"
  shows "KattisLoader_get_task_args lx dk path get_statement = Inl FileNotFoundError"
proof -
  have ex: "path_exists dk (path_join path ''attachments'')"
    using assms(5) by (auto simp add: listdir_def path_exists_def split: option.splits)
  have "put_attachments lx dk path (f # rest) = Inl FileNotFoundError"
    using assms(6,7) by simp
  then have att: "load_attachments lx dk path = Inl FileNotFoundError"
    using ex assms(5) by (simp add: load_attachments_def)
  show ?thesis
    using assms(1-4) att
    by (cases get_statement)
      (simp_all add: KattisLoader_get_task_args_def path_exists_def load_conf_def read_file_def)
qed


theorem attachments_read_from_att_witness:
  "listdir example_package (path_join ''/tasks/sum'' ''attachments'') = Inr [''grader.h'']
   \<and> map_of example_package ''/tasks/sum/attachments/grader.h'' = Some (File ''int sum(int, int);'')
   \<and> map_of example_package ''/tasks/sum/att/grader.h'' = None
   \<and> KattisLoader_get_task_args example_loader_externals example_package ''/tasks/sum'' True
       = Inl FileNotFoundError"
proof -
  have y: "map_of example_package (path_join ''/tasks/sum'' ''problem.yaml'') = Some (File ''Sum'')"
    by (simp add: example_package_def path_join_def)
  have l: "yaml_safe_load example_loader_externals ''Sum'' = Inr (Some [''name'' \<mapsto> StrV ''Sum''])"
    by (simp add: example_loader_externals_def)
  have n: "[''name'' \<mapsto> StrV ''Sum''] ''name'' = Some (StrV ''Sum'')"
    by simp
  have s: "True \<longrightarrow> put_statements example_loader_externals example_package
             (glob_statements example_loader_externals example_package ''/tasks/sum'') = Inr []"
    by (simp add: example_loader_externals_def)
  have d: "listdir example_package (path_join ''/tasks/sum'' ''attachments'')
             = Inr (''grader.h'' # [])"
    by (simp add: listdir_def entry_name_def example_package_def path_join_def
        List.map_filter_def)
  have a: "map_of example_package (path_join (path_join ''/tasks/sum'' ''att'') ''grader.h'') = None"
    by (simp add: example_package_def path_join_def)
  have c: "\<forall>fs p. fs p = None \<longrightarrow>
             put_file_from_path example_loader_externals fs p = Inl FileNotFoundError"
    by (simp add: example_loader_externals_def)
  have "KattisLoader_get_task_args example_loader_externals example_package ''/tasks/sum'' True
          = Inl FileNotFoundError"
    using attachments_read_from_att [where lx = example_loader_externals
        and dk = example_package and path = "''/tasks/sum''" and get_statement = True
        and conf = "[''name'' \<mapsto> StrV ''Sum'']", OF y l n s d a c] .
  moreover have "map_of example_package ''/tasks/sum/attachments/grader.h''
                   = Some (File ''int sum(int, int);'')"
    by (simp add: example_package_def)
  moreover have "map_of example_package ''/tasks/sum/att/grader.h'' = None"
    by (simp add: example_package_def)
  ultimately show ?thesis using d by simp
qed

end
